theory Spec2Isabelle
  imports Complex_Main "HOL-Library.Sublist" "HOL-Library.AList"
begin

section \<open>JavaScript values\<close>

text \<open>
  The program is \<^verbatim>\<open>static/background-effects.js\<close>. A JavaScript string is a
  list of UTF-16 code units; string literals of the source are written
  \<open>js ''...''\<close>. A Number is \<open>NaN\<close>, an infinity or a finite value; finite values
  are real numbers, so the rounding of IEEE doubles and the sign of zero are outside
  the model.
\<close>

type_synonym jsstring = "nat list"

abbreviation js :: "string \<Rightarrow> jsstring" where
  "js s \<equiv> map of_char s"

datatype jsnum = NaN | PosInf | NegInf | Fin real

datatype jsval =
    Undefined
  | Null
  | Bool bool
  | Num jsnum
  | Str jsstring
  | Arr "jsval list"
  | Obj "(jsstring \<times> jsval) list"

datatype exn = SyntaxError | TypeError | NotFoundError

text \<open>\<^verbatim>\<open>a / b\<close> on Numbers: division by zero does not throw, it yields an
  infinity or \<open>NaN\<close>.\<close>

fun js_div :: "jsnum \<Rightarrow> jsnum \<Rightarrow> jsnum" where
  "js_div (Fin a) (Fin b) =
     (if b = 0 then (if a = 0 then NaN else if 0 < a then PosInf else NegInf)
      else Fin (a / b))"
| "js_div (Fin a) PosInf = Fin 0"
| "js_div (Fin a) NegInf = Fin 0"
| "js_div PosInf (Fin b) = (if 0 \<le> b then PosInf else NegInf)"
| "js_div NegInf (Fin b) = (if 0 \<le> b then NegInf else PosInf)"
| "js_div _ _ = NaN"

fun js_neg :: "jsnum \<Rightarrow> jsnum" where
  "js_neg NaN = NaN"
| "js_neg PosInf = NegInf"
| "js_neg NegInf = PosInf"
| "js_neg (Fin x) = Fin (- x)"

subsection \<open>String methods\<close>

definition startsWith :: "jsstring \<Rightarrow> jsstring \<Rightarrow> bool" where
  "startsWith s p = prefix p s"

fun includes_str :: "jsstring \<Rightarrow> jsstring \<Rightarrow> bool" where
  "includes_str [] p = (p = [])"
| "includes_str (c # cs) p = (prefix p (c # cs) \<or> includes_str cs p)"

text \<open>\<^verbatim>\<open>toLowerCase\<close>: the letters A to Z are mapped to a to z. No other
  character lowercases to one of t, r, u, e, so the comparison with \<^verbatim>\<open>'true'\<close>
  that the program makes is the same as with the full Unicode mapping.\<close>

definition toLowerCase :: "jsstring \<Rightarrow> jsstring" where
  "toLowerCase s = map (\<lambda>c. if 65 \<le> c \<and> c \<le> 90 then c + 32 else c) s"

subsection \<open>parseFloat and parseInt\<close>

definition is_digit :: "nat \<Rightarrow> bool" where
  "is_digit c \<longleftrightarrow> 48 \<le> c \<and> c \<le> 57"

definition digits_value :: "jsstring \<Rightarrow> nat" where
  "digits_value ds = foldl (\<lambda>a c. 10 * a + (c - 48)) 0 ds"

text \<open>White space and line terminators of ECMAScript (\<^verbatim>\<open>StrWhiteSpaceChar\<close>).\<close>

definition StrWhiteSpaceChar :: "nat \<Rightarrow> bool" where
  "StrWhiteSpaceChar c \<longleftrightarrow>
     c = 9 \<or> c = 10 \<or> c = 11 \<or> c = 12 \<or> c = 13 \<or> c = 32 \<or> c = 160 \<or> c = 5760
     \<or> (8192 \<le> c \<and> c \<le> 8202) \<or> c = 8232 \<or> c = 8233 \<or> c = 8239 \<or> c = 8287
     \<or> c = 12288 \<or> c = 65279"

definition scale10 :: "real \<Rightarrow> int \<Rightarrow> real" where
  "scale10 x e = (if 0 \<le> e then x * 10 ^ nat e else x / 10 ^ nat (- e))"

text \<open>The exponent that starts a string, \<^verbatim>\<open>e\<close> or \<^verbatim>\<open>E\<close>, an optional
  sign and at least one digit; \<open>None\<close> when the string does not start with one.\<close>

definition ExponentPart :: "jsstring \<Rightarrow> int option" where
  "ExponentPart s =
     (case s of
        [] \<Rightarrow> None
      | c # r \<Rightarrow>
          if c = 101 \<or> c = 69 then
            (case r of
               [] \<Rightarrow> None
             | d # r' \<Rightarrow>
                 if d = 43 \<or> d = 45 then
                   (if takeWhile is_digit r' = [] then None
                    else Some ((if d = 45 then - 1 else 1) * int (digits_value (takeWhile is_digit r'))))
                 else if takeWhile is_digit r = [] then None
                 else Some (int (digits_value (takeWhile is_digit r))))
          else None)"

text \<open>The value of the longest prefix that is a \<^verbatim>\<open>StrUnsignedDecimalLiteral\<close>
  (\<^verbatim>\<open>Infinity\<close>, digits with an optional fraction and exponent, or a fraction
  that starts with the point), \<open>NaN\<close> when no prefix is one.\<close>

definition StrUnsignedDecimalLiteral :: "jsstring \<Rightarrow> jsnum" where
  "StrUnsignedDecimalLiteral s =
     (if prefix (js ''Infinity'') s then PosInf
      else
        let ip = takeWhile is_digit s;
            r1 = dropWhile is_digit s;
            fp = (case r1 of [] \<Rightarrow> [] | c # t \<Rightarrow> if c = 46 then takeWhile is_digit t else []);
            r2 = (case r1 of [] \<Rightarrow> [] | c # t \<Rightarrow> if c = 46 then dropWhile is_digit t else r1)
        in if ip = [] \<and> fp = [] then NaN
           else Fin (scale10 (real (digits_value ip) + real (digits_value fp) / 10 ^ length fp)
                             (case ExponentPart r2 of None \<Rightarrow> 0 | Some e \<Rightarrow> e)))"

definition parseFloat :: "jsstring \<Rightarrow> jsnum" where
  "parseFloat s =
     (case dropWhile StrWhiteSpaceChar s of
        [] \<Rightarrow> NaN
      | c # r \<Rightarrow>
          if c = 43 then StrUnsignedDecimalLiteral r
          else if c = 45 then js_neg (StrUnsignedDecimalLiteral r)
          else StrUnsignedDecimalLiteral (c # r))"

definition hex_digit :: "nat \<Rightarrow> nat option" where
  "hex_digit c =
     (if 48 \<le> c \<and> c \<le> 57 then Some (c - 48)
      else if 97 \<le> c \<and> c \<le> 102 then Some (c - 87)
      else if 65 \<le> c \<and> c \<le> 70 then Some (c - 55)
      else None)"

definition hex_value :: "jsstring \<Rightarrow> nat" where
  "hex_value ds = foldl (\<lambda>a c. 16 * a + (case hex_digit c of None \<Rightarrow> 0 | Some d \<Rightarrow> d)) 0 ds"

text \<open>\<^verbatim>\<open>parseInt(s, 16)\<close>: leading white space, a sign, an optional
  \<^verbatim>\<open>0x\<close>, then the longest run of hexadecimal digits.\<close>

definition parseInt16 :: "jsstring \<Rightarrow> jsnum" where
  "parseInt16 s =
     (let t = dropWhile StrWhiteSpaceChar s;
          negative = (case t of [] \<Rightarrow> False | c # r \<Rightarrow> c = 45);
          u = (case t of [] \<Rightarrow> [] | c # r \<Rightarrow> if c = 43 \<or> c = 45 then r else t);
          v = (if prefix (js ''0x'') u \<or> prefix (js ''0X'') u then drop 2 u else u);
          z = takeWhile (\<lambda>c. hex_digit c \<noteq> None) v
      in if z = [] then NaN
         else if negative then Fin (- real (hex_value z))
         else Fin (real (hex_value z)))"

subsection \<open>JSON.parse\<close>

text \<open>
  \<^verbatim>\<open>JSON.parse\<close> either returns a value or throws a \<^verbatim>\<open>SyntaxError\<close>. The
  text is split into tokens by a scanner that reads one code unit at a time, and the
  tokens are read by a machine with a stack of the arrays and objects that are open.
  An object is the list of its members; a key that comes again replaces the value of
  the first.
\<close>

datatype token =
    TLBrace | TRBrace | TLBracket | TRBracket | TColon | TComma
  | TStr jsstring
  | TAtom jsval

datatype lexstate =
    Idle
  | InString jsstring
  | InEscape jsstring
  | InUnicode jsstring "nat list"
  | InNumber jsstring
  | InWord jsstring

text \<open>An exponent that is the whole of the string.\<close>

definition json_exponent :: "jsstring \<Rightarrow> int option" where
  "json_exponent s =
     (case s of
        [] \<Rightarrow> None
      | c # r \<Rightarrow>
          if c = 101 \<or> c = 69 then
            (case r of
               [] \<Rightarrow> None
             | d # r' \<Rightarrow>
                 if d = 43 \<or> d = 45 then
                   (if r' \<noteq> [] \<and> list_all is_digit r'
                    then Some ((if d = 45 then - 1 else 1) * int (digits_value r')) else None)
                 else if list_all is_digit r then Some (int (digits_value r))
                 else None)
          else None)"

text \<open>A JSON number: an optional minus, an integer part with no leading zero, an
  optional fraction with at least one digit, an optional exponent.\<close>

definition json_number :: "jsstring \<Rightarrow> real option" where
  "json_number s =
     (let negative = (case s of [] \<Rightarrow> False | c # r \<Rightarrow> c = 45);
          u = (case s of [] \<Rightarrow> [] | c # r \<Rightarrow> if c = 45 then r else s);
          ip = takeWhile is_digit u;
          r1 = dropWhile is_digit u;
          frac = (case r1 of [] \<Rightarrow> False | c # t \<Rightarrow> c = 46);
          fp = (case r1 of [] \<Rightarrow> [] | c # t \<Rightarrow> if c = 46 then takeWhile is_digit t else []);
          r2 = (case r1 of [] \<Rightarrow> [] | c # t \<Rightarrow> if c = 46 then dropWhile is_digit t else r1);
          m = real (digits_value ip) + real (digits_value fp) / 10 ^ length fp;
          sg = (if negative then - 1 else 1)
      in if ip = [] \<or> (1 < length ip \<and> take 1 ip = [48]) \<or> (frac \<and> fp = []) then None
         else if r2 = [] then Some (sg * m)
         else (case json_exponent r2 of None \<Rightarrow> None | Some e \<Rightarrow> Some (sg * scale10 m e)))"

definition json_word :: "jsstring \<Rightarrow> jsval option" where
  "json_word w =
     (if w = js ''null'' then Some Null
      else if w = js ''true'' then Some (Bool True)
      else if w = js ''false'' then Some (Bool False)
      else None)"

definition json_escape :: "nat \<Rightarrow> nat option" where
  "json_escape c =
     (if c = 34 \<or> c = 92 \<or> c = 47 then Some c
      else if c = 98 then Some 8
      else if c = 102 then Some 12
      else if c = 110 then Some 10
      else if c = 114 then Some 13
      else if c = 116 then Some 9
      else None)"

definition json_punct :: "nat \<Rightarrow> token option" where
  "json_punct c =
     (if c = 123 then Some TLBrace
      else if c = 125 then Some TRBrace
      else if c = 91 then Some TLBracket
      else if c = 93 then Some TRBracket
      else if c = 58 then Some TColon
      else if c = 44 then Some TComma
      else None)"

text \<open>The code unit that ends a number or a word is white space or punctuation: a
  value cannot follow a value.\<close>

definition json_delim :: "nat \<Rightarrow> token list \<Rightarrow> token list option" where
  "json_delim c acc =
     (if c = 32 \<or> c = 9 \<or> c = 10 \<or> c = 13 then Some acc
      else (case json_punct c of None \<Rightarrow> None | Some t \<Rightarrow> Some (t # acc)))"

fun json_lex :: "lexstate \<Rightarrow> token list \<Rightarrow> jsstring \<Rightarrow> token list option" where
  "json_lex Idle acc [] = Some (rev acc)"
| "json_lex (InNumber n) acc [] =
     (case json_number (rev n) of
        None \<Rightarrow> None
      | Some x \<Rightarrow> Some (rev (TAtom (Num (Fin x)) # acc)))"
| "json_lex (InWord w) acc [] =
     (case json_word (rev w) of None \<Rightarrow> None | Some v \<Rightarrow> Some (rev (TAtom v # acc)))"
| "json_lex (InString s) acc [] = None"
| "json_lex (InEscape s) acc [] = None"
| "json_lex (InUnicode s hs) acc [] = None"
| "json_lex Idle acc (c # cs) =
     (if c = 32 \<or> c = 9 \<or> c = 10 \<or> c = 13 then json_lex Idle acc cs
      else if c = 34 then json_lex (InString []) acc cs
      else if c = 45 \<or> is_digit c then json_lex (InNumber [c]) acc cs
      else if 97 \<le> c \<and> c \<le> 122 then json_lex (InWord [c]) acc cs
      else (case json_punct c of None \<Rightarrow> None | Some t \<Rightarrow> json_lex Idle (t # acc) cs))"
| "json_lex (InString s) acc (c # cs) =
     (if c = 34 then json_lex Idle (TStr (rev s) # acc) cs
      else if c = 92 then json_lex (InEscape s) acc cs
      else if c < 32 then None
      else json_lex (InString (c # s)) acc cs)"
| "json_lex (InEscape s) acc (c # cs) =
     (if c = 117 then json_lex (InUnicode s []) acc cs
      else (case json_escape c of None \<Rightarrow> None | Some e \<Rightarrow> json_lex (InString (e # s)) acc cs))"
| "json_lex (InUnicode s hs) acc (c # cs) =
     (case hex_digit c of
        None \<Rightarrow> None
      | Some h \<Rightarrow>
          if length hs = 3 then json_lex (InString (foldl (\<lambda>a d. 16 * a + d) 0 (rev (h # hs)) # s)) acc cs
          else json_lex (InUnicode s (h # hs)) acc cs)"
| "json_lex (InNumber n) acc (c # cs) =
     (if is_digit c \<or> c = 43 \<or> c = 45 \<or> c = 46 \<or> c = 69 \<or> c = 101
      then json_lex (InNumber (c # n)) acc cs
      else (case json_number (rev n) of
              None \<Rightarrow> None
            | Some x \<Rightarrow>
                (case json_delim c (TAtom (Num (Fin x)) # acc) of
                   None \<Rightarrow> None
                 | Some acc' \<Rightarrow> json_lex Idle acc' cs)))"
| "json_lex (InWord w) acc (c # cs) =
     (if 97 \<le> c \<and> c \<le> 122 then json_lex (InWord (c # w)) acc cs
      else (case json_word (rev w) of
              None \<Rightarrow> None
            | Some v \<Rightarrow>
                (case json_delim c (TAtom v # acc) of
                   None \<Rightarrow> None
                 | Some acc' \<Rightarrow> json_lex Idle acc' cs)))"

datatype frame =
    FArr "jsval list"
  | FObj "(jsstring \<times> jsval) list"
  | FKey "(jsstring \<times> jsval) list" jsstring

datatype pstate =
    PValue "frame list"
  | PValueOrEnd "frame list"
  | PKeyOrEnd "frame list"
  | PKey "frame list"
  | PColon "frame list"
  | PSep "frame list"
  | PDone jsval

text \<open>A value is complete: it is the result, an element of the open array, or the
  value of the open object's pending key.\<close>

fun json_push :: "jsval \<Rightarrow> frame list \<Rightarrow> pstate option" where
  "json_push v [] = Some (PDone v)"
| "json_push v (FArr xs # st) = Some (PSep (FArr (xs @ [v]) # st))"
| "json_push v (FKey kvs k # st) = Some (PSep (FObj (AList.update k v kvs) # st))"
| "json_push v (FObj kvs # st) = None"

fun json_value :: "frame list \<Rightarrow> token \<Rightarrow> pstate option" where
  "json_value st (TAtom v) = json_push v st"
| "json_value st (TStr s) = json_push (Str s) st"
| "json_value st TLBracket = Some (PValueOrEnd (FArr [] # st))"
| "json_value st TLBrace = Some (PKeyOrEnd (FObj [] # st))"
| "json_value st _ = None"

fun json_step :: "pstate \<Rightarrow> token \<Rightarrow> pstate option" where
  "json_step (PValue st) t = json_value st t"
| "json_step (PValueOrEnd (FArr xs # st)) TRBracket = json_push (Arr xs) st"
| "json_step (PValueOrEnd st) t = json_value st t"
| "json_step (PKeyOrEnd (FObj kvs # st)) TRBrace = json_push (Obj kvs) st"
| "json_step (PKeyOrEnd (FObj kvs # st)) (TStr k) = Some (PColon (FKey kvs k # st))"
| "json_step (PKeyOrEnd st) t = None"
| "json_step (PKey (FObj kvs # st)) (TStr k) = Some (PColon (FKey kvs k # st))"
| "json_step (PKey st) t = None"
| "json_step (PColon st) TColon = Some (PValue st)"
| "json_step (PColon st) t = None"
| "json_step (PSep (FArr xs # st)) TComma = Some (PValue (FArr xs # st))"
| "json_step (PSep (FArr xs # st)) TRBracket = json_push (Arr xs) st"
| "json_step (PSep (FObj kvs # st)) TComma = Some (PKey (FObj kvs # st))"
| "json_step (PSep (FObj kvs # st)) TRBrace = json_push (Obj kvs) st"
| "json_step (PSep st) t = None"
| "json_step (PDone v) t = None"

fun json_run :: "pstate \<Rightarrow> token list \<Rightarrow> jsval option" where
  "json_run (PDone v) [] = Some v"
| "json_run s [] = None"
| "json_run s (t # ts) = (case json_step s t of None \<Rightarrow> None | Some s' \<Rightarrow> json_run s' ts)"

definition JSON_parse :: "jsstring \<Rightarrow> exn + jsval" where
  "JSON_parse text =
     (case json_lex Idle [] text of
        None \<Rightarrow> Inl SyntaxError
      | Some ts \<Rightarrow> (case json_run (PValue []) ts of None \<Rightarrow> Inl SyntaxError | Some v \<Rightarrow> Inr v))"

section \<open>Global helper functions\<close>

subsection \<open>parseData\<close>

text \<open>
  A host element is the map of its attributes. \<open>parseData_try\<close> is the body of
  the \<^verbatim>\<open>try\<close> block, \<open>parseData\<close> the whole function with its
  \<^verbatim>\<open>catch\<close>, which returns \<^verbatim>\<open>value || defaultValue\<close>: the raw string
  unless it is empty.
\<close>

type_synonym element = "jsstring \<rightharpoonup> jsstring"

definition numeric_key :: "jsstring \<Rightarrow> bool" where
  "numeric_key key \<longleftrightarrow>
     includes_str key (js ''speed'') \<or> includes_str key (js ''amplitude'') \<or> includes_str key (js ''length'')
     \<or> includes_str key (js ''road-width'') \<or> includes_str key (js ''width'') \<or> includes_str key (js ''lines'')
     \<or> includes_str key (js ''fov'')"

definition color_key :: "jsstring \<Rightarrow> bool" where
  "color_key key \<longleftrightarrow>
     includes_str key (js ''color'') \<or> includes_str key (js ''cars'') \<or> includes_str key (js ''lines'')
     \<or> includes_str key (js ''sticks'')"

definition boolean_key :: "jsstring \<Rightarrow> bool" where
  "boolean_key key \<longleftrightarrow> includes_str key (js ''mouse-react'')"

definition parseData_try :: "jsstring \<Rightarrow> jsstring \<Rightarrow> exn + jsval" where
  "parseData_try key v =
     (if numeric_key key then Inr (Num (parseFloat v))
      else if color_key key then
        (if startsWith v (js ''['') \<or> startsWith v (js ''{'') then JSON_parse v else Inr (Str v))
      else if boolean_key key then Inr (Bool (toLowerCase v = js ''true''))
      else JSON_parse v)"

definition parseData :: "element \<Rightarrow> jsstring \<Rightarrow> jsval \<Rightarrow> exn + jsval" where
  "parseData element key defaultValue =
     (case element key of
        None \<Rightarrow> Inr defaultValue
      | Some v \<Rightarrow>
          (case parseData_try key v of
             Inr r \<Rightarrow> Inr r
           | Inl e \<Rightarrow> Inr (if v \<noteq> [] then Str v else defaultValue)))"

subsection \<open>lerp\<close>

text \<open>\<^verbatim>\<open>lerp(current, target, speed = 0.1, limit = 0.001)\<close> returns the change to
  add to \<open>current\<close>; both defaults are written out at the calls.\<close>

definition lerp :: "real \<Rightarrow> real \<Rightarrow> real \<Rightarrow> real \<Rightarrow> real" where
  "lerp current target speed limit =
     (let change = (target - current) * speed
      in if \<bar>change\<bar> < limit then target - current else change)"

section \<open>Hyperspeed: helpers, options and distortion\<close>

datatype vec3 = Vector3 (v3_x: real) (v3_y: real) (v3_z: real)

datatype vec4 = Vector4 (v4_x: real) (v4_y: real) (v4_z: real) (v4_w: real)

definition nsin :: "real \<Rightarrow> real" where
  "nsin val = sin val * 0.5 + 0.5"

text \<open>\<^verbatim>\<open>random(base)\<close> and \<^verbatim>\<open>pickRandom(arr)\<close> call
  \<^verbatim>\<open>Math.random()\<close> once; its result is the first argument here. A
  \<open>base\<close> is an array of two numbers or a number. Reading an array past its end
  yields \<^verbatim>\<open>undefined\<close>, here \<open>None\<close>.\<close>

datatype range = Range real real | Scalar real



text \<open>\<open>Color v\<close> is the object \<^verbatim>\<open>new THREE.Color(v)\<close>. The library is not
  part of the program: what it stores for an argument is not modelled.\<close>

datatype color = Color jsval

definition hexToColor :: "jsval \<Rightarrow> color" where
  "hexToColor hex =
     Color (case hex of
              Str s \<Rightarrow>
                if startsWith s (js ''0x'') then Num (parseInt16 (drop 2 s))
                else if startsWith s (js ''#'') then Num (parseInt16 (drop 1 s))
                else hex
            | _ \<Rightarrow> hex)"

text \<open>The resolved options of an instance. Every numeric option is a finite number
  here; \<open>opt_lightPairsPerRoadWay\<close> and \<open>opt_totalSideLightSticks\<close> are never read
  from an attribute and are natural numbers.\<close>

record options =
  opt_length :: real
  opt_roadWidth :: real
  opt_islandWidth :: real
  opt_lanesPerRoad :: real
  opt_fov :: real
  opt_fovSpeedUp :: real
  opt_speedUp :: real
  opt_carLightsFade :: real
  opt_totalSideLightSticks :: nat
  opt_lightPairsPerRoadWay :: nat
  opt_movingAwaySpeed :: range
  opt_movingCloserSpeed :: range
  opt_carLightsLength :: range
  opt_carLightsRadius :: range
  opt_carWidthPercentage :: range
  opt_carShiftX :: range
  opt_carFloorSeparation :: range
  opt_leftCars :: jsval
  opt_rightCars :: jsval

definition defaultHyperspeedOptions :: options where
  "defaultHyperspeedOptions =
     \<lparr> opt_length = 400, opt_roadWidth = 10, opt_islandWidth = 2, opt_lanesPerRoad = 4,
       opt_fov = 90, opt_fovSpeedUp = 150, opt_speedUp = 2, opt_carLightsFade = 0.4,
       opt_totalSideLightSticks = 20, opt_lightPairsPerRoadWay = 40,
       opt_movingAwaySpeed = Range 60 80, opt_movingCloserSpeed = Range (- 120) (- 160),
       opt_carLightsLength = Range (400 * 0.03) (400 * 0.2),
       opt_carLightsRadius = Range 0.05 0.14,
       opt_carWidthPercentage = Range 0.3 0.5,
       opt_carShiftX = Range (- 0.8) 0.8,
       opt_carFloorSeparation = Range 0 5,
       opt_leftCars = Arr [Str (js ''0xD856BF''), Str (js ''0x6750A2''), Str (js ''0xC247AC'')],
       opt_rightCars = Arr [Str (js ''0x03B3C3''), Str (js ''0x0E5EA5''), Str (js ''0x324555'')] \<rparr>"

subsection \<open>The turbulent distortion\<close>

text \<open>
  \<open>turbulentUniforms\<close> are the two vectors that both sides read: the shader as its
  uniforms \<^verbatim>\<open>uFreq\<close> and \<^verbatim>\<open>uAmp\<close> (components r, g, b, a), the host as
  \<^verbatim>\<open>turbulentUniforms.uFreq.value\<close> (components x, y, z, w).

  The shader functions take the value of the macro \<^verbatim>\<open>PI\<close>, the two uniforms and
  the uniform \<^verbatim>\<open>uTime\<close> as arguments; \<open>getDistortion_shader\<close> is the function
  with the macro as the shader defines it. \<^verbatim>\<open>pow(v, 2.)\<close> and
  \<^verbatim>\<open>Math.pow(v, 2)\<close> are both the square.
\<close>

definition uFreq :: vec4 where
  "uFreq = Vector4 4 8 8 1"

definition uAmp :: vec4 where
  "uAmp = Vector4 25 5 10 10"

definition PI :: real where
  "PI = 3.14159265358979"

definition getDistortionX :: "real \<Rightarrow> vec4 \<Rightarrow> vec4 \<Rightarrow> real \<Rightarrow> real \<Rightarrow> real" where
  "getDistortionX P f a uTime progress =
     cos (P * progress * v4_x f + uTime) * v4_x a
     + (cos (P * progress * v4_y f + uTime * (v4_y f / v4_x f))) ^ 2 * v4_y a"

definition getDistortionY :: "real \<Rightarrow> vec4 \<Rightarrow> vec4 \<Rightarrow> real \<Rightarrow> real \<Rightarrow> real" where
  "getDistortionY P f a uTime progress =
     - nsin (P * progress * v4_z f + uTime) * v4_z a
     + - ((nsin (P * progress * v4_w f + uTime / (v4_z f / v4_w f))) ^ 5) * v4_w a"

definition getDistortion :: "real \<Rightarrow> vec4 \<Rightarrow> vec4 \<Rightarrow> real \<Rightarrow> real \<Rightarrow> vec3" where
  "getDistortion P f a uTime progress =
     Vector3 (getDistortionX P f a uTime progress - getDistortionX P f a uTime 0.0125)
             (getDistortionY P f a uTime progress - getDistortionY P f a uTime 0.0125)
             0"

definition getDistortion_shader :: "real \<Rightarrow> real \<Rightarrow> vec3" where
  "getDistortion_shader uTime progress = getDistortion PI uFreq uAmp uTime progress"

text \<open>The host side, \<^verbatim>\<open>getJS(progress, time)\<close>, with its local functions
  \<^verbatim>\<open>getX\<close> and \<^verbatim>\<open>getY\<close>; \<^verbatim>\<open>Math.PI\<close> is \<open>pi\<close>.
  \<^verbatim>\<open>multiply\<close> and \<^verbatim>\<open>add\<close> work component by component.\<close>

definition getX :: "real \<Rightarrow> real \<Rightarrow> real" where
  "getX time p =
     cos (pi * p * v4_x uFreq + time) * v4_x uAmp
     + (cos (pi * p * v4_y uFreq + time * (v4_y uFreq / v4_x uFreq))) ^ 2 * v4_y uAmp"

definition getY :: "real \<Rightarrow> real \<Rightarrow> real" where
  "getY time p =
     - nsin (pi * p * v4_z uFreq + time) * v4_z uAmp
     - (nsin (pi * p * v4_w uFreq + time / (v4_z uFreq / v4_w uFreq))) ^ 5 * v4_w uAmp"

definition multiply :: "vec3 \<Rightarrow> vec3 \<Rightarrow> vec3" where
  "multiply u v = Vector3 (v3_x u * v3_x v) (v3_y u * v3_y v) (v3_z u * v3_z v)"

definition add :: "vec3 \<Rightarrow> vec3 \<Rightarrow> vec3" where
  "add u v = Vector3 (v3_x u + v3_x v) (v3_y u + v3_y v) (v3_z u + v3_z v)"

definition getJS :: "real \<Rightarrow> real \<Rightarrow> vec3" where
  "getJS progress time =
     (let distortion = Vector3 (getX time progress - getX time (progress + 0.007))
                               (getY time progress - getY time (progress + 0.007))
                               0;
          lookAtAmp = Vector3 (- 2) (- 5) 0;
          lookAtOffset = Vector3 0 0 (- 10)
      in add (multiply distortion lookAtAmp) lookAtOffset)"

section \<open>Car lights\<close>




definition resolve_colors :: "jsval \<Rightarrow> color list" where
  "resolve_colors cs = (case cs of Arr xs \<Rightarrow> map hexToColor xs | _ \<Rightarrow> [hexToColor cs])"






section \<open>HyperspeedApp\<close>

text \<open>
  The state of a constructed instance and of the page around it. The canvas has a
  backing store (\<open>width\<close>, \<open>height\<close>) and a display size (\<open>clientWidth\<close>,
  \<open>clientHeight\<close>); the display size and the container's \<open>offsetWidth\<close> and
  \<open>offsetHeight\<close> are set by the browser's layout. \<open>attached\<close> says that the
  canvas is a child of the container. \<open>calls\<close> is the log of the calls made into the
  renderer, the composer, the scene and the camera, with their arguments (\<open>None\<close> for an
  argument left out); \<open>scheduled\<close> counts the calls of
  \<^verbatim>\<open>requestAnimationFrame\<close>. The four \<open>uTime\<close> fields are the uniforms of the
  scene objects.
\<close>

record canvas =
  width :: nat
  height :: nat
  clientWidth :: nat
  clientHeight :: nat

record camera =
  fov :: real
  aspect :: jsnum

datatype call =
    RendererSetSize nat nat "bool option"
  | RendererSetPixelRatio real
  | RendererDispose
  | ComposerSetSize nat nat "bool option"
  | ComposerRender real
  | ComposerDispose
  | SceneClear
  | CameraLookAt vec3
  | CameraUpdateProjectionMatrix

datatype target = Window | Container

datatype handler = OnWindowResize | OnMouseDown | OnMouseUp | OnContextMenu

type_synonym listener = "target \<times> string \<times> handler"

record app =
  options :: options
  offsetWidth :: nat
  offsetHeight :: nat
  attached :: bool
  listeners :: "listener list"
  domElement :: canvas
  pixelRatio :: real
  camera :: camera
  disposed :: bool
  fovTarget :: real
  speedUpTarget :: real
  speedUp :: real
  timeOffset :: real
  elapsedTime :: real
  rightCarLights_uTime :: real
  leftCarLights_uTime :: real
  leftSticks_uTime :: real
  road_uTime :: real
  calls :: "call list"
  scheduled :: nat

text \<open>A call that reaches the rendering backend: the renderer, the composer or the
  scene. The camera's methods compute on the host.\<close>

fun gpu_call :: "call \<Rightarrow> bool" where
  "gpu_call (CameraLookAt v) = False"
| "gpu_call CameraUpdateProjectionMatrix = False"
| "gpu_call c = True"

definition invoke :: "call \<Rightarrow> app \<Rightarrow> app" where
  "invoke c a = a\<lparr>calls := calls a @ [c]\<rparr>"

subsection \<open>The libraries and the page\<close>

text \<open>
  What the program relies on from three.js, postprocessing and the DOM, as they
  document it. \<^verbatim>\<open>WebGLRenderer.setSize(width, height, updateStyle)\<close> resizes the
  canvas to the size times the pixel ratio, rounded down;
  \<^verbatim>\<open>EffectComposer.setSize\<close> resizes the renderer and its own buffers.
  \<^verbatim>\<open>addEventListener\<close> ignores a listener that is registered already,
  \<^verbatim>\<open>removeEventListener\<close> one that is not registered, and
  \<^verbatim>\<open>removeChild\<close> throws when the node is not a child.
\<close>

definition drawingBuffer :: "real \<Rightarrow> nat \<Rightarrow> nat \<Rightarrow> canvas \<Rightarrow> canvas" where
  "drawingBuffer ratio w h cv =
     cv\<lparr>width := nat \<lfloor>real w * ratio\<rfloor>, height := nat \<lfloor>real h * ratio\<rfloor>\<rparr>"

definition renderer_setSize :: "nat \<Rightarrow> nat \<Rightarrow> bool option \<Rightarrow> app \<Rightarrow> app" where
  "renderer_setSize w h updateStyle a =
     invoke (RendererSetSize w h updateStyle)
       (a\<lparr>domElement := drawingBuffer (pixelRatio a) w h (domElement a)\<rparr>)"

definition composer_setSize :: "nat \<Rightarrow> nat \<Rightarrow> bool option \<Rightarrow> app \<Rightarrow> app" where
  "composer_setSize w h updateStyle a =
     invoke (ComposerSetSize w h updateStyle)
       (a\<lparr>domElement := drawingBuffer (pixelRatio a) w h (domElement a)\<rparr>)"

definition addEventListener :: "target \<Rightarrow> string \<Rightarrow> handler \<Rightarrow> app \<Rightarrow> app" where
  "addEventListener t ty h a =
     (if (t, ty, h) \<in> set (listeners a) then a else a\<lparr>listeners := listeners a @ [(t, ty, h)]\<rparr>)"

definition removeEventListener :: "target \<Rightarrow> string \<Rightarrow> handler \<Rightarrow> app \<Rightarrow> app" where
  "removeEventListener t ty h a = a\<lparr>listeners := removeAll (t, ty, h) (listeners a)\<rparr>"

definition removeChild :: "app \<Rightarrow> exn + app" where
  "removeChild a = (if attached a then Inr (a\<lparr>attached := False\<rparr>) else Inl NotFoundError)"

text \<open>The browser lays the container out at a new size; the canvas, styled to fill
  it, is displayed at that size.\<close>

definition layout :: "nat \<Rightarrow> nat \<Rightarrow> app \<Rightarrow> app" where
  "layout w h a =
     a\<lparr>offsetWidth := w, offsetHeight := h,
       domElement := (domElement a)\<lparr>clientWidth := w, clientHeight := h\<rparr>\<rparr>"

subsection \<open>Listeners\<close>

definition onWindowResize :: "app \<Rightarrow> app" where
  "onWindowResize a =
     (let w = offsetWidth a;
          h = offsetHeight a;
          a1 = renderer_setSize w h None a;
          a2 = a1\<lparr>camera := (camera a1)\<lparr>aspect := js_div (Fin (real w)) (Fin (real h))\<rparr>\<rparr>;
          a3 = invoke CameraUpdateProjectionMatrix a2
      in composer_setSize w h None a3)"

definition onMouseDown :: "app \<Rightarrow> app" where
  "onMouseDown a =
     a\<lparr>fovTarget := opt_fovSpeedUp (options a), speedUpTarget := opt_speedUp (options a)\<rparr>"

definition onMouseUp :: "app \<Rightarrow> app" where
  "onMouseUp a = a\<lparr>fovTarget := opt_fov (options a), speedUpTarget := 0\<rparr>"

definition setupListeners :: "app \<Rightarrow> app" where
  "setupListeners a =
     (addEventListener Container ''contextmenu'' OnContextMenu
     (addEventListener Container ''touchcancel'' OnMouseUp
     (addEventListener Container ''touchend'' OnMouseUp
     (addEventListener Container ''touchstart'' OnMouseDown
     (addEventListener Container ''mouseout'' OnMouseUp
     (addEventListener Container ''mouseup'' OnMouseUp
     (addEventListener Container ''mousedown'' OnMouseDown
     (addEventListener Window ''resize'' OnWindowResize a))))))))"


fun handle :: "handler \<Rightarrow> app \<Rightarrow> app" where
  "handle OnWindowResize a = onWindowResize a"
| "handle OnMouseDown a = onMouseDown a"
| "handle OnMouseUp a = onMouseUp a"
| "handle OnContextMenu a = a"

text \<open>An event of type \<open>ty\<close> at \<open>t\<close> runs the handlers registered for it, in
  the order of their registration.\<close>

definition dispatch :: "target \<Rightarrow> string \<Rightarrow> app \<Rightarrow> app" where
  "dispatch t ty a =
     foldl (\<lambda>s l. handle (snd (snd l)) s) a
       (filter (\<lambda>l. fst l = t \<and> fst (snd l) = ty) (listeners a))"

subsection \<open>update, render, dispose, tick\<close>

definition lerpPercentage :: "real \<Rightarrow> real" where
  "lerpPercentage delta = exp (- (- 60 * log 2 (1 - 0.1)) * delta)"

definition camera_position :: vec3 where
  "camera_position = Vector3 0 8 (- 5)"

definition update :: "real \<Rightarrow> app \<Rightarrow> app" where
  "update delta a =
     (let p = lerpPercentage delta;
          a1 = a\<lparr>speedUp := speedUp a + lerp (speedUp a) (speedUpTarget a) p 0.00001\<rparr>;
          a2 = a1\<lparr>timeOffset := timeOffset a1 + speedUp a1 * delta\<rparr>;
          time = elapsedTime a2 + timeOffset a2;
          a3 = a2\<lparr>rightCarLights_uTime := time, leftCarLights_uTime := time,
                  leftSticks_uTime := time, road_uTime := time\<rparr>;
          fovChange = lerp (fov (camera a3)) (fovTarget a3) p 0.001;
          a4 = (if fovChange \<noteq> 0
                then a3\<lparr>camera := (camera a3)\<lparr>fov := fov (camera a3) + fovChange * delta * 6\<rparr>\<rparr>
                else a3);
          distortion = getJS 0.025 time;
          a5 = invoke (CameraLookAt (add camera_position distortion)) a4
      in invoke CameraUpdateProjectionMatrix a5)"

definition render :: "real \<Rightarrow> app \<Rightarrow> app" where
  "render delta a = invoke (ComposerRender delta) a"

text \<open>The eight calls of \<^verbatim>\<open>removeEventListener\<close> in \<^verbatim>\<open>dispose\<close>, and
  \<^verbatim>\<open>dispose\<close> itself: the \<^verbatim>\<open>try\<close> around
  \<^verbatim>\<open>removeChild\<close> catches what it throws.\<close>

definition removeListeners :: "app \<Rightarrow> app" where
  "removeListeners a =
     removeEventListener Container ''contextmenu'' OnContextMenu
    (removeEventListener Container ''touchcancel'' OnMouseUp
    (removeEventListener Container ''touchend'' OnMouseUp
    (removeEventListener Container ''touchstart'' OnMouseDown
    (removeEventListener Container ''mouseout'' OnMouseUp
    (removeEventListener Container ''mouseup'' OnMouseUp
    (removeEventListener Container ''mousedown'' OnMouseDown
    (removeEventListener Window ''resize'' OnWindowResize a)))))))"

definition dispose :: "app \<Rightarrow> exn + app" where
  "dispose a =
     (let a1 = a\<lparr>disposed := True\<rparr>;
          a2 = invoke RendererDispose a1;
          a3 = invoke ComposerDispose a2;
          a4 = invoke SceneClear a3;
          a5 = removeListeners a4
      in case removeChild a5 of Inl e \<Rightarrow> Inr a5 | Inr a6 \<Rightarrow> Inr a6)"

definition setSize :: "nat \<Rightarrow> nat \<Rightarrow> bool \<Rightarrow> app \<Rightarrow> app" where
  "setSize w h updateStyles a = composer_setSize w h (Some updateStyles) a"

text \<open>\<^verbatim>\<open>resizeRendererToDisplaySize(renderer, setSize)\<close> returns
  \<open>needResize\<close> and the state after the call of \<open>setSize\<close>, if it made one.\<close>

definition resizeRendererToDisplaySize :: "(nat \<Rightarrow> nat \<Rightarrow> bool \<Rightarrow> app \<Rightarrow> app) \<Rightarrow> app \<Rightarrow> bool \<times> app" where
  "resizeRendererToDisplaySize setSize' a =
     (let cv = domElement a;
          w = clientWidth cv;
          h = clientHeight cv;
          needResize = (width cv \<noteq> w \<or> height cv \<noteq> h)
      in (needResize, if needResize then setSize' w h False a else a))"

text \<open>\<open>tick delta\<close> is the frame callback; \<open>delta\<close> is what
  \<^verbatim>\<open>clock.getDelta()\<close> returns, which also advances \<open>elapsedTime\<close>.\<close>

definition tick :: "real \<Rightarrow> app \<Rightarrow> app" where
  "tick delta a =
     (if disposed a then a
      else
        let (needResize, a1) = resizeRendererToDisplaySize setSize a;
            a2 = (if needResize
                  then invoke CameraUpdateProjectionMatrix
                         (a1\<lparr>camera := (camera a1)\<lparr>aspect :=
                            js_div (Fin (real (clientWidth (domElement a1))))
                                   (Fin (real (clientHeight (domElement a1))))\<rparr>\<rparr>)
                  else a1);
            a3 = a2\<lparr>elapsedTime := elapsedTime a2 + delta\<rparr>;
            a4 = render delta a3;
            a5 = update delta a4
        in a5\<lparr>scheduled := scheduled a5 + 1\<rparr>)"

text \<open>
  The constructor. Without the libraries it returns before the instance has a
  field: \<open>None\<close>. \<open>dpr\<close> is \<^verbatim>\<open>window.devicePixelRatio\<close>, \<open>w\<close> and \<open>h\<close>
  the container's offset size, which the appended canvas is displayed at. The
  renderer is sized at pixel ratio 1 and then given the device's pixel ratio, which
  resizes the canvas again. The constructor also builds the scene objects; their
  geometry is the subject of \<open>CarLights_init\<close>, which throws for an empty palette,
  and this is the state of an instance whose scene objects were built. The first frame
  runs at the end, with the delta 0 of a clock that starts.
\<close>

definition HyperspeedApp :: "bool \<Rightarrow> real \<Rightarrow> nat \<Rightarrow> nat \<Rightarrow> options \<Rightarrow> app option" where
  "HyperspeedApp libraries dpr w h opts =
     (if \<not> libraries then None
      else
        let cv = drawingBuffer dpr w h
                   (drawingBuffer 1 w h \<lparr>width = 300, height = 150, clientWidth = w, clientHeight = h\<rparr>);
            a = \<lparr> options = opts, offsetWidth = w, offsetHeight = h, attached = True,
                  listeners = [], domElement = cv, pixelRatio = dpr,
                  camera = \<lparr>fov = opt_fov opts, aspect = js_div (Fin (real w)) (Fin (real h))\<rparr>,
                  disposed = False, fovTarget = opt_fov opts, speedUpTarget = 0, speedUp = 0,
                  timeOffset = 0, elapsedTime = 0, rightCarLights_uTime = 0,
                  leftCarLights_uTime = 0, leftSticks_uTime = 0, road_uTime = 0,
                  calls = [RendererSetSize w h (Some False), RendererSetPixelRatio dpr],
                  scheduled = 0 \<rparr>
        in Some (tick 0 (setupListeners a)))"

text \<open>A run of frames, one delta each, and the calls of a log that resize.\<close>

fun frames :: "real list \<Rightarrow> app \<Rightarrow> app" where
  "frames [] a = a"
| "frames (d # ds) a = frames ds (tick d a)"

fun resize_call :: "call \<Rightarrow> bool" where
  "resize_call (RendererSetSize w h u) = True"
| "resize_call (ComposerSetSize w h u) = True"
| "resize_call c = False"


section \<open>IridescenceEffect\<close>

text \<open>
  \<^verbatim>\<open>IridescenceEffect.resize\<close>. \<open>ir_clientWidth\<close> and \<open>ir_clientHeight\<close> are
  the container's, \<open>ir_width\<close> and \<open>ir_height\<close> the canvas's backing store, which
  the renderer of OGL, constructed here with its pixel ratio 1, sets to the size it is
  given. \<open>uResolution\<close> is the uniform, \<open>None\<close> while there is no program.
  \<^verbatim>\<open>x || 1\<close> is 1 when \<open>x\<close> is 0.
\<close>

record iridescence =
  ir_clientWidth :: nat
  ir_clientHeight :: nat
  ir_width :: nat
  ir_height :: nat
  ir_program :: bool
  uResolution :: "(jsnum \<times> jsnum \<times> jsnum) option"

definition resize :: "iridescence \<Rightarrow> iridescence" where
  "resize e =
     (let w = (if ir_clientWidth e = 0 then 1 else ir_clientWidth e);
          h = (if ir_clientHeight e = 0 then 1 else ir_clientHeight e);
          e1 = e\<lparr>ir_width := w, ir_height := h\<rparr>
      in if ir_program e1
         then e1\<lparr>uResolution :=
                   Some (Fin (real (ir_width e1)), Fin (real (ir_height e1)),
                         js_div (Fin (real (ir_width e1))) (Fin (real (ir_height e1))))\<rparr>
         else e1)"

section \<open>Frames, resizing and disposal\<close>

subsection \<open>What each step changes\<close>

lemma update_frame:
  "domElement (update d a) = domElement a"
  "disposed (update d a) = disposed a"
  "pixelRatio (update d a) = pixelRatio a"
  "options (update d a) = options a"
  "speedUpTarget (update d a) = speedUpTarget a"
  "scheduled (update d a) = scheduled a"
  "aspect (camera (update d a)) = aspect (camera a)"
  "filter resize_call (calls (update d a)) = filter resize_call (calls a)"
  "filter gpu_call (calls (update d a)) = filter gpu_call (calls a)"
  "speedUp (update d a) = speedUp a + lerp (speedUp a) (speedUpTarget a) (lerpPercentage d) 0.00001"
  by (simp_all add: update_def Let_def invoke_def)

lemma tick_frame:
  assumes "\<not> disposed a"
  shows "domElement (tick d a) =
           (if width (domElement a) \<noteq> clientWidth (domElement a)
               \<or> height (domElement a) \<noteq> clientHeight (domElement a)
            then drawingBuffer (pixelRatio a) (clientWidth (domElement a))
                   (clientHeight (domElement a)) (domElement a)
            else domElement a)"
    and "disposed (tick d a) = disposed a"
    and "pixelRatio (tick d a) = pixelRatio a"
    and "options (tick d a) = options a"
    and "speedUpTarget (tick d a) = speedUpTarget a"
    and "scheduled (tick d a) = scheduled a + 1"
    and "filter resize_call (calls (tick d a)) =
           filter resize_call (calls a) @
           (if width (domElement a) \<noteq> clientWidth (domElement a)
               \<or> height (domElement a) \<noteq> clientHeight (domElement a)
            then [ComposerSetSize (clientWidth (domElement a)) (clientHeight (domElement a)) (Some False)]
            else [])"
    and "aspect (camera (tick d a)) =
           (if width (domElement a) \<noteq> clientWidth (domElement a)
               \<or> height (domElement a) \<noteq> clientHeight (domElement a)
            then js_div (Fin (real (clientWidth (domElement a)))) (Fin (real (clientHeight (domElement a))))
            else aspect (camera a))"
    and "speedUp (tick d a) =
           speedUp a + lerp (speedUp a) (speedUpTarget a) (lerpPercentage d) 0.00001"
  using assms
  by (simp_all add: tick_def resizeRendererToDisplaySize_def Let_def update_frame render_def
        setSize_def composer_setSize_def invoke_def drawingBuffer_def)

lemma addEventListener_frame:
  "domElement (addEventListener t ty h a) = domElement a"
  "disposed (addEventListener t ty h a) = disposed a"
  "pixelRatio (addEventListener t ty h a) = pixelRatio a"
  "options (addEventListener t ty h a) = options a"
  "speedUpTarget (addEventListener t ty h a) = speedUpTarget a"
  "speedUp (addEventListener t ty h a) = speedUp a"
  "camera (addEventListener t ty h a) = camera a"
  "calls (addEventListener t ty h a) = calls a"
  by (simp_all add: addEventListener_def)

lemma setupListeners_frame:
  "domElement (setupListeners a) = domElement a"
  "disposed (setupListeners a) = disposed a"
  "pixelRatio (setupListeners a) = pixelRatio a"
  "options (setupListeners a) = options a"
  "speedUpTarget (setupListeners a) = speedUpTarget a"
  "speedUp (setupListeners a) = speedUp a"
  "camera (setupListeners a) = camera a"
  "calls (setupListeners a) = calls a"
  by (simp_all add: setupListeners_def addEventListener_frame)

lemma layout_frame:
  "disposed (layout w h a) = disposed a"
  "pixelRatio (layout w h a) = pixelRatio a"
  "calls (layout w h a) = calls a"
  "domElement (layout w h a) = (domElement a)\<lparr>clientWidth := w, clientHeight := h\<rparr>"
  "offsetWidth (layout w h a) = w"
  "offsetHeight (layout w h a) = h"
  by (simp_all add: layout_def)

lemma lerp_same: "0 < l \<Longrightarrow> lerp s s p l = 0"
  by (simp add: lerp_def)

text \<open>The instance that the constructor returns when the libraries are there.\<close>

lemma constructed:
  "\<not> disposed (the (HyperspeedApp True dpr w h opts))"
  "pixelRatio (the (HyperspeedApp True dpr w h opts)) = dpr"
  "options (the (HyperspeedApp True dpr w h opts)) = opts"
  "speedUp (the (HyperspeedApp True dpr w h opts)) = 0"
  "domElement (the (HyperspeedApp True dpr w h opts)) =
     \<lparr>width = nat \<lfloor>real w * dpr\<rfloor>, height = nat \<lfloor>real h * dpr\<rfloor>,
      clientWidth = w, clientHeight = h\<rparr>"
  by (simp_all add: HyperspeedApp_def Let_def tick_frame setupListeners_frame drawingBuffer_def
        lerp_same)

subsection \<open>dispose\<close>

lemma removeListeners_eq:
  "removeListeners a = a\<lparr>listeners := listeners (removeListeners a)\<rparr>"
  by (simp add: removeListeners_def removeEventListener_def)




lemma removeListeners_frame:
  "listeners (removeListeners (b\<lparr>calls := f\<rparr>)) = listeners (removeListeners b)"
  "listeners (removeListeners (b\<lparr>disposed := g\<rparr>)) = listeners (removeListeners b)"
  "listeners (removeListeners (b\<lparr>attached := g\<rparr>)) = listeners (removeListeners b)"
  by (simp_all add: removeListeners_def removeEventListener_def)

text \<open>\<^verbatim>\<open>dispose\<close> returns, whether the canvas is a child of the container or not,
  and this is the state it leaves.\<close>

lemma dispose_state:
  "dispose a = Inr ((removeListeners a)\<lparr>attached := False, disposed := True,
                      calls := calls a @ [RendererDispose, ComposerDispose, SceneClear]\<rparr>)"
proof -
  have r: "\<And>b. removeListeners b = b\<lparr>listeners := listeners (removeListeners b)\<rparr>"
    by (rule removeListeners_eq)
  show ?thesis
    apply (simp only: dispose_def Let_def invoke_def removeChild_def)
    apply (subst r)
    apply (subst (2) r)
    apply (subst (3) r)
    apply (subst (4) r)
    apply (simp add: removeListeners_frame)
    done
qed


text \<open>The constructor registers the eight listeners, so that a press at the container
  runs \<^verbatim>\<open>onMouseDown\<close>; \<^verbatim>\<open>dispose\<close> removes them all, and an event
  that is dispatched afterwards finds no handler.\<close>

lemma tick_listeners: "listeners (tick d a) = listeners a"
  by (simp add: tick_def resizeRendererToDisplaySize_def Let_def update_def render_def
        setSize_def composer_setSize_def invoke_def split: prod.split)

lemma listeners_constructed:
  "listeners (the (HyperspeedApp True dpr w h opts)) =
     [(Window, ''resize'', OnWindowResize), (Container, ''mousedown'', OnMouseDown),
      (Container, ''mouseup'', OnMouseUp), (Container, ''mouseout'', OnMouseUp),
      (Container, ''touchstart'', OnMouseDown), (Container, ''touchend'', OnMouseUp),
      (Container, ''touchcancel'', OnMouseUp), (Container, ''contextmenu'', OnContextMenu)]"
  by (simp add: HyperspeedApp_def Let_def tick_listeners setupListeners_def addEventListener_def)

lemma press_dispatch:
  "dispatch Container ''mousedown'' (the (HyperspeedApp True dpr w h opts))
     = onMouseDown (the (HyperspeedApp True dpr w h opts))"
  by (simp add: dispatch_def listeners_constructed)

lemma listeners_disposed:
  "listeners (projr (dispose (the (HyperspeedApp True dpr w h opts)))) = []"
  by (simp add: dispose_state removeListeners_def removeEventListener_def listeners_constructed)

lemma dispatch_disposed:
  "dispatch t ty (projr (dispose (the (HyperspeedApp True dpr w h opts))))
     = projr (dispose (the (HyperspeedApp True dpr w h opts)))"
  by (simp add: dispatch_def listeners_disposed)




text \<open>Nothing resets the flag: not a frame, not a handler, not the layout.\<close>

lemma disposed_stays:
  "disposed (tick d a) = disposed a"
  "disposed (handle h a) = disposed a"
  "disposed (layout w' h' a) = disposed a"
proof -
  show "disposed (tick d a) = disposed a"
    by (cases "disposed a") (simp_all add: tick_frame, simp add: tick_def)
  show "disposed (handle h a) = disposed a"
    by (cases h)
       (simp_all add: onWindowResize_def onMouseDown_def onMouseUp_def Let_def
          renderer_setSize_def composer_setSize_def invoke_def)
  show "disposed (layout w' h' a) = disposed a"
    by (simp add: layout_def)
qed

text \<open>
  C2. \<^verbatim>\<open>dispose\<close> returns with the flag set, and a frame callback that fires
  on a state with the flag set returns the state as it is: nothing is rendered, the log
  of calls and the count of scheduled frames stay, and nothing is thrown (the callback
  is a total function of the state). The second part is the same for any state with
  the flag set, whatever happened since \<^verbatim>\<open>dispose\<close>.
\<close>

theorem tick_after_dispose:
  "(\<exists>a'. dispose a = Inr a' \<and> disposed a' \<and> tick delta a' = a'
         \<and> calls (tick delta a') = calls a' \<and> scheduled (tick delta a') = scheduled a')
   \<and> tick delta (b\<lparr>disposed := True\<rparr>) = b\<lparr>disposed := True\<rparr>"
proof -
  let ?a = "(removeListeners a)\<lparr>attached := False, disposed := True,
              calls := calls a @ [RendererDispose, ComposerDispose, SceneClear]\<rparr>"
  have "dispose a = Inr ?a" by (rule dispose_state)
  moreover have "disposed ?a" by simp
  moreover have "tick delta ?a = ?a" by (simp add: tick_def)
  moreover have "tick delta (b\<lparr>disposed := True\<rparr>) = b\<lparr>disposed := True\<rparr>"
    by (simp add: tick_def)
  ultimately show ?thesis by auto
qed

subsection \<open>Resizing\<close>

text \<open>
  At pixel ratio 1 the resize of C5 happens once: the container goes from 800 by 600
  to 400 by 300, and of the three frames that follow only the first calls
  \<^verbatim>\<open>setSize\<close>; the backing store is 400 by 300 and the aspect 4/3.
\<close>

lemma resize_once_at_ratio_1:
  "filter resize_call (calls (frames [d1, d2, d3] (layout 400 300 (the (HyperspeedApp True 1 800 600 opts)))))
   = filter resize_call (calls (the (HyperspeedApp True 1 800 600 opts)))
     @ [ComposerSetSize 400 300 (Some False)]"
  "aspect (camera (frames [d1, d2, d3] (layout 400 300 (the (HyperspeedApp True 1 800 600 opts)))))
   = Fin (4 / 3)"
  "domElement (frames [d1, d2, d3] (layout 400 300 (the (HyperspeedApp True 1 800 600 opts)))) =
     \<lparr>width = 400, height = 300, clientWidth = 400, clientHeight = 300\<rparr>"
  by (simp_all add: tick_frame constructed layout_frame drawingBuffer_def)

text \<open>
  C5 at the device pixel ratio 2. The constructor gives the ratio to the renderer, so
  the backing store of a canvas displayed at 400 by 300 is 800 by 600, and
  \<^verbatim>\<open>resizeRendererToDisplaySize\<close> compares it with the display size: two frames
  in which the container did not change both call \<^verbatim>\<open>setSize\<close>.
\<close>

theorem resize_every_frame_at_ratio_2:
  "filter resize_call (calls (frames [1 / 60, 1 / 60]
      (the (HyperspeedApp True 2 400 300 defaultHyperspeedOptions))))
   = filter resize_call (calls (the (HyperspeedApp True 2 400 300 defaultHyperspeedOptions)))
     @ [ComposerSetSize 400 300 (Some False), ComposerSetSize 400 300 (Some False)]"
  by (simp add: tick_frame constructed drawingBuffer_def)

text \<open>
  C9 in \<^verbatim>\<open>HyperspeedApp.onWindowResize\<close>: for a container of size zero the
  aspect of the camera becomes 0/0, which is \<open>NaN\<close>.
\<close>

theorem onWindowResize_zero:
  "aspect (camera (onWindowResize (layout 0 0 a))) = NaN"
  by (simp add: onWindowResize_def Let_def layout_def renderer_setSize_def composer_setSize_def
        invoke_def)

text \<open>The frame callback does the same when the canvas shrinks to size zero, while
  \<^verbatim>\<open>IridescenceEffect.resize\<close> replaces a zero by 1.\<close>

lemma tick_zero:
  "\<not> disposed a \<Longrightarrow> 0 < width (domElement a) \<Longrightarrow> aspect (camera (tick d (layout 0 0 a))) = NaN"
  by (simp add: tick_frame layout_frame)

lemma resize_zero:
  "ir_program e \<Longrightarrow>
   uResolution (resize (e\<lparr>ir_clientWidth := 0, ir_clientHeight := 0\<rparr>)) = Some (Fin 1, Fin 1, Fin 1)"
  by (simp add: resize_def Let_def)

section \<open>Speed-up easing\<close>







section \<open>Resolving attributes\<close>









lemmas heuristics = numeric_key_def color_key_def boolean_key_def




text \<open>
  C10. For a key that none of the three heuristics matches, an attribute declared as
  the empty string resolves to the default: \<^verbatim>\<open>JSON.parse\<close> throws on the empty
  string and \<^verbatim>\<open>value || defaultValue\<close> takes the default for it. A value that
  is not empty and not JSON resolves to the raw string.
\<close>

theorem parseData_empty_string:
  "(element key = Some [] \<and> \<not> numeric_key key \<and> \<not> color_key key \<and> \<not> boolean_key key
      \<longrightarrow> parseData element key d = Inr d)
   \<and> (\<forall>v e. element key = Some v \<and> v \<noteq> [] \<and> \<not> numeric_key key \<and> \<not> color_key key
          \<and> \<not> boolean_key key \<and> JSON_parse v = Inl e
      \<longrightarrow> parseData element key d = Inr (Str v))"
  by (simp add: parseData_def parseData_try_def JSON_parse_def)

text \<open>\<^verbatim>\<open>data-distortion\<close>, declared empty and declared as a word.\<close>

theorem parseData_empty_string_witness:
  "parseData [js ''data-distortion'' \<mapsto> []] (js ''data-distortion'') (Str (js ''turbulentDistortion''))
     = Inr (Str (js ''turbulentDistortion''))
   \<and> parseData [js ''data-distortion'' \<mapsto> js ''deep''] (js ''data-distortion'') (Str (js ''turbulentDistortion''))
     = Inr (Str (js ''deep''))"
proof -
  note t = parseData_empty_string
  have 1: "parseData [js ''data-distortion'' \<mapsto> []] (js ''data-distortion'') (Str (js ''turbulentDistortion''))
     = Inr (Str (js ''turbulentDistortion''))"
    by (rule t [THEN conjunct1, rule_format]) (simp add: heuristics)
  have 2: "parseData [js ''data-distortion'' \<mapsto> js ''deep''] (js ''data-distortion'') (Str (js ''turbulentDistortion''))
     = Inr (Str (js ''deep''))"
    by (rule t [THEN conjunct2, rule_format, where e = SyntaxError])
       (simp add: heuristics JSON_parse_def json_word_def is_digit_def)
  from 1 2 show ?thesis by blast
qed

section \<open>Distortion: shader and host\<close>

text \<open>
  C6, as the code has it. With the same number for \<open>\<pi>\<close> the functions of the two
  sides for an axis are the same function of progress and time, over the same
  frequencies and amplitudes. What the two sides return is built from them in two
  ways: the shader's offset is the difference to the value at progress 0.0125, with
  third component 0; the host's vector is the difference to the value at progress
  plus 0.007, times \<open>- 2\<close> and \<open>- 5\<close>, with third component \<open>- 10\<close>.
\<close>

theorem turbulent_formulas:
  "getDistortionX pi uFreq uAmp t p = getX t p
   \<and> getDistortionY pi uFreq uAmp t p = getY t p
   \<and> getDistortion_shader t p =
        Vector3 (getDistortionX PI uFreq uAmp t p - getDistortionX PI uFreq uAmp t 0.0125)
                (getDistortionY PI uFreq uAmp t p - getDistortionY PI uFreq uAmp t 0.0125)
                0
   \<and> getJS p t =
        Vector3 (- 2 * (getX t p - getX t (p + 0.007)))
                (- 5 * (getY t p - getY t (p + 0.007)))
                (- 10)"
  by (simp add: getDistortionX_def getX_def getDistortionY_def getY_def getDistortion_shader_def
        getDistortion_def getJS_def Let_def multiply_def add_def)

text \<open>C6, as the claim states it, fails at progress 0 and time 0: the third components
  are \<open>- 10\<close> and 0.\<close>

theorem turbulent_counterexample:
  "v3_z (getJS 0 0) = - 10 \<and> v3_z (getDistortion_shader 0 0) = 0"
  by (simp add: getDistortion_shader_def getDistortion_def getJS_def Let_def multiply_def add_def)

section \<open>Colours\<close>

text \<open>
  C8, as the code has it. A string of hexadecimal digits resolves to the same colour
  behind \<^verbatim>\<open>#\<close> as behind \<^verbatim>\<open>0x\<close>, for \<^verbatim>\<open>ffffff\<close> the colour of
  the number 16777215. An array is not one of the forms that \<^verbatim>\<open>hexToColor\<close>
  reads: it reaches the constructor as it is, and where the option is a palette (the
  colours of the cars and of the sticks) its three components are read as three
  colours.
\<close>

theorem hexToColor_forms:
  "hexToColor (Str (js ''#'' @ h)) = hexToColor (Str (js ''0x'' @ h))
   \<and> hexToColor (Str (js ''#ffffff'')) = Color (Num (Fin 16777215))
   \<and> hexToColor (Str (js ''0xffffff'')) = Color (Num (Fin 16777215))
   \<and> hexToColor (Arr t) = Color (Arr t)
   \<and> resolve_colors (Arr [c1, c2, c3]) = [hexToColor c1, hexToColor c2, hexToColor c3]
   \<and> resolve_colors (Str s) = [hexToColor (Str s)]"
  by (simp add: hexToColor_def startsWith_def resolve_colors_def parseInt16_def StrWhiteSpaceChar_def
      hex_digit_def hex_value_def)

text \<open>
  C8, as the claim states it, fails for the triplet of white: as a palette it resolves
  to three colours, each built from the number 1, where either string resolves to one
  colour.
\<close>

theorem triplet_counterexample:
  "resolve_colors (Arr [Num (Fin 1), Num (Fin 1), Num (Fin 1)])
     = [Color (Num (Fin 1)), Color (Num (Fin 1)), Color (Num (Fin 1))]
   \<and> resolve_colors (Str (js ''#ffffff'')) = [Color (Num (Fin 16777215))]
   \<and> resolve_colors (Str (js ''0xffffff'')) = [Color (Num (Fin 16777215))]
   \<and> length (resolve_colors (Arr [Num (Fin 1), Num (Fin 1), Num (Fin 1)])) = 3
   \<and> length (resolve_colors (Str (js ''#ffffff''))) = 1"
  by (simp add: hexToColor_def startsWith_def resolve_colors_def parseInt16_def StrWhiteSpaceChar_def
      hex_digit_def hex_value_def)

section \<open>Car lights: count and lanes\<close>











end
